theory Spec2Isabelle
  imports Main "HOL-Library.Word"
begin

unbundle bit_operations_syntax

section \<open>Values of the embedding\<close>

text \<open>
  Modelled from the spec: the \<open>KeyIdType\<close> enumeration of \<^verbatim>\<open>key-id-type.js\<close>, which
  \<^verbatim>\<open>key-params.js\<close> requires and which is not among the sources. The spec names three
  policies: user-specified, digest-derived and random. The numbers behind the names are
  not given, so an enumeration value is a value of its own kind, equal only to itself.
\<close>

datatype KeyIdType = USER_SPECIFIED | SHA256 | RANDOM

text \<open>
  Modelled from the spec: the \<open>KeyType\<close> enumeration of \<^verbatim>\<open>security-types.js\<close>
  (RSA, ECDSA, AES), also required and not among the sources.
\<close>

datatype KeyType = RSA | ECDSA | AES

text \<open>
  Modelled from the spec: \<open>Name.Component\<close> of \<^verbatim>\<open>name.js\<close>, a possibly empty byte
  sequence. \<^verbatim>\<open>getValue().size()\<close> is the length of the list and
  \<^verbatim>\<open>new Name.Component()\<close> is the empty list.
\<close>

type_synonym Component = "8 word list"

type_synonym addr = nat

text \<open>
  The values a caller can pass to the constructors. \<open>JSComponent\<close> is an object that is
  an instance of \<open>Name.Component\<close>; \<open>JSObject\<close> is a reference to any other object, by
  its address in the store.
\<close>

datatype jsval =
    JSUndefined
  | JSNull
  | JSBoolean bool
  | JSNumber int
  | JSString string
  | JSKeyIdType KeyIdType
  | JSComponent Component
  | JSObject addr

text \<open>\<^verbatim>\<open>x == undefined\<close>: loose equality holds for \<open>undefined\<close> and \<open>null\<close> only.\<close>

definition loose_eq_undefined :: "jsval \<Rightarrow> bool" where
  "loose_eq_undefined x = (case x of JSUndefined \<Rightarrow> True | JSNull \<Rightarrow> True | _ \<Rightarrow> False)"

text \<open>
  \<^verbatim>\<open>x == KeyIdType.K\<close> for an enumeration value \<open>K\<close>. The comparison is followed
  for the enumeration values themselves. A value of another kind that JavaScript would
  convert to the number behind \<open>K\<close> is taken as different from \<open>K\<close>, since that number
  is not known.
\<close>

definition loose_eq_KeyIdType :: "jsval \<Rightarrow> KeyIdType \<Rightarrow> bool" where
  "loose_eq_KeyIdType x k = (case x of JSKeyIdType k' \<Rightarrow> k' = k | _ \<Rightarrow> False)"

text \<open>
  The bitwise operators of JavaScript convert both operands to 32-bit signed integers
  and give a 32-bit signed integer.
\<close>

definition js_bitand :: "int \<Rightarrow> int \<Rightarrow> int" where
  "js_bitand a b = sint ((word_of_int a :: 32 word) AND word_of_int b)"

definition js_bitor :: "int \<Rightarrow> int \<Rightarrow> int" where
  "js_bitor a b = sint ((word_of_int a :: 32 word) OR word_of_int b)"

section \<open>ForwardingFlags\<close>

text \<open>
  The fields of a ForwardingFlags object: two booleans, and the origin, a number or
  \<open>null\<close> (\<open>None\<close>).
\<close>

record ForwardingFlagsFields =
  childInherit :: bool
  capture :: bool
  origin :: "int option"

text \<open>
  Objects are mutable and are passed by reference, so they live in a store: a list of
  objects, an address being a position in it. Allocation appends, nothing is ever
  removed. An object of the store is a ForwardingFlags or an object of another class.
\<close>

datatype heapobj = ForwardingFlagsObj ForwardingFlagsFields | OtherObj

type_synonym heap = "heapobj list"

text \<open>The fields of the ForwardingFlags at an address, if there is one there.\<close>

definition deref :: "heap \<Rightarrow> addr \<Rightarrow> ForwardingFlagsFields option" where
  "deref h a =
     (if a < length h then
        (case h ! a of ForwardingFlagsObj f \<Rightarrow> Some f | OtherObj \<Rightarrow> None)
      else None)"

text \<open>\<^verbatim>\<open>typeof value === 'object' && value instanceof ForwardingFlags\<close>\<close>

definition instanceof_ForwardingFlags :: "heap \<Rightarrow> jsval \<Rightarrow> ForwardingFlagsFields option" where
  "instanceof_ForwardingFlags h v = (case v of JSObject a \<Rightarrow> deref h a | _ \<Rightarrow> None)"

text \<open>
  \<^verbatim>\<open>new ForwardingFlags(value)\<close>: the new object is allocated at the end of the store and
  its address is returned with the new store.
\<close>

definition ForwardingFlags :: "heap \<Rightarrow> jsval \<Rightarrow> heap \<times> addr" where
  "ForwardingFlags h v =
     (let this = length h in
      case instanceof_ForwardingFlags h v of
        Some src \<Rightarrow>
          (h @ [ForwardingFlagsObj
                 \<lparr>childInherit = childInherit src, capture = capture src, origin = origin src\<rparr>],
           this)
      | None \<Rightarrow>
          (h @ [ForwardingFlagsObj \<lparr>childInherit = True, capture = False, origin = None\<rparr>],
           this))"

definition NfdForwardingFlags_CHILD_INHERIT :: int where
  "NfdForwardingFlags_CHILD_INHERIT = 1"

definition NfdForwardingFlags_CAPTURE :: int where
  "NfdForwardingFlags_CAPTURE = 2"

text \<open>
  A method takes the store and the address of \<open>this\<close> and returns the store with its
  result. \<open>None\<close> stands for a call on something that is not a ForwardingFlags, which
  the embedding does not follow further.
\<close>

definition getNfdForwardingFlags :: "heap \<Rightarrow> addr \<Rightarrow> (heap \<times> int) option" where
  "getNfdForwardingFlags h this =
     (case deref h this of
        None \<Rightarrow> None
      | Some f \<Rightarrow>
          (let result0 = 0;
               result1 = (if childInherit f
                          then js_bitor result0 NfdForwardingFlags_CHILD_INHERIT else result0);
               result2 = (if capture f
                          then js_bitor result1 NfdForwardingFlags_CAPTURE else result1)
           in Some (h, result2)))"

definition setNfdForwardingFlags :: "heap \<Rightarrow> addr \<Rightarrow> int \<Rightarrow> (heap \<times> addr) option" where
  "setNfdForwardingFlags h this nfdForwardingFlags =
     (case deref h this of
        None \<Rightarrow> None
      | Some f \<Rightarrow>
          (let f1 = f\<lparr>childInherit :=
                       (js_bitand nfdForwardingFlags NfdForwardingFlags_CHILD_INHERIT \<noteq> 0)\<rparr>;
               f2 = f1\<lparr>capture :=
                        (js_bitand nfdForwardingFlags NfdForwardingFlags_CAPTURE \<noteq> 0)\<rparr>
           in Some (h[this := ForwardingFlagsObj f2], this)))"

definition getChildInherit :: "heap \<Rightarrow> addr \<Rightarrow> (heap \<times> bool) option" where
  "getChildInherit h this =
     (case deref h this of None \<Rightarrow> None | Some f \<Rightarrow> Some (h, childInherit f))"

definition getCapture :: "heap \<Rightarrow> addr \<Rightarrow> (heap \<times> bool) option" where
  "getCapture h this =
     (case deref h this of None \<Rightarrow> None | Some f \<Rightarrow> Some (h, capture f))"

definition getOrigin :: "heap \<Rightarrow> addr \<Rightarrow> (heap \<times> int option) option" where
  "getOrigin h this =
     (case deref h this of None \<Rightarrow> None | Some f \<Rightarrow> Some (h, origin f))"

definition setChildInherit :: "heap \<Rightarrow> addr \<Rightarrow> bool \<Rightarrow> (heap \<times> addr) option" where
  "setChildInherit h this b =
     (case deref h this of
        None \<Rightarrow> None
      | Some f \<Rightarrow> Some (h[this := ForwardingFlagsObj (f\<lparr>childInherit := b\<rparr>)], this))"

definition setCapture :: "heap \<Rightarrow> addr \<Rightarrow> bool \<Rightarrow> (heap \<times> addr) option" where
  "setCapture h this b =
     (case deref h this of
        None \<Rightarrow> None
      | Some f \<Rightarrow> Some (h[this := ForwardingFlagsObj (f\<lparr>capture := b\<rparr>)], this))"

definition setOrigin :: "heap \<Rightarrow> addr \<Rightarrow> int option \<Rightarrow> (heap \<times> addr) option" where
  "setOrigin h this x =
     (case deref h this of
        None \<Rightarrow> None
      | Some f \<Rightarrow> Some (h[this := ForwardingFlagsObj (f\<lparr>origin := x\<rparr>)], this))"

text \<open>
  The calls that change a ForwardingFlags, as data, and a chain of them on one object:
  each call is made on the reference the call before it returned.
\<close>

datatype mutation =
    SetChildInherit bool
  | SetCapture bool
  | SetOrigin "int option"
  | SetNfdForwardingFlags int

fun mutate :: "heap \<Rightarrow> addr \<Rightarrow> mutation \<Rightarrow> (heap \<times> addr) option" where
  "mutate h this (SetChildInherit b) = setChildInherit h this b"
| "mutate h this (SetCapture b) = setCapture h this b"
| "mutate h this (SetOrigin x) = setOrigin h this x"
| "mutate h this (SetNfdForwardingFlags v) = setNfdForwardingFlags h this v"

fun mutate_chain :: "heap \<Rightarrow> addr \<Rightarrow> mutation list \<Rightarrow> (heap \<times> addr) option" where
  "mutate_chain h this [] = Some (h, this)"
| "mutate_chain h this (m # ms) =
     (case mutate h this m of
        None \<Rightarrow> None
      | Some (h', this') \<Rightarrow> mutate_chain h' this' ms)"

section \<open>KeyParams\<close>

text \<open>\<^verbatim>\<open>throw new Error(message)\<close>\<close>

datatype error = Error string

text \<open>\<^verbatim>\<open>x instanceof Name.Component\<close>, with the component when it holds.\<close>

definition instanceof_Name_Component :: "jsval \<Rightarrow> Component option" where
  "instanceof_Name_Component x = (case x of JSComponent c \<Rightarrow> Some c | _ \<Rightarrow> None)"

text \<open>
  The fields the base constructor sets, and the object of a subclass, which has the
  size as well. Isabelle does not take a name that ends with an underscore, so the
  field \<^verbatim>\<open>keyType_\<close> is written \<open>keyType_'\<close>, and the others likewise.
\<close>

record KeyParamsFields =
  keyType_' :: KeyType
  keyIdType_' :: jsval
  keyId_' :: Component

record SizedKeyParamsFields = KeyParamsFields +
  size_' :: jsval

text \<open>\<^verbatim>\<open>this.size_ = s\<close> on the object the base constructor has filled.\<close>

definition set_size :: "KeyParamsFields \<Rightarrow> jsval \<Rightarrow> SizedKeyParamsFields" where
  "set_size this s =
     \<lparr>keyType_' = keyType_' this, keyIdType_' = keyIdType_' this, keyId_' = keyId_' this,
      size_' = s\<rparr>"

text \<open>
  The base constructor. A \<^verbatim>\<open>throw\<close> ends the construction: the result is the error
  and there is no object.
\<close>

definition KeyParams :: "KeyType \<Rightarrow> jsval \<Rightarrow> error + KeyParamsFields" where
  "KeyParams keyType keyIdTypeOrKeyId =
     (case instanceof_Name_Component keyIdTypeOrKeyId of
        Some keyId \<Rightarrow>
          (if length keyId = 0 then Inl (Error ''KeyParams: keyId is empty'')
           else Inr \<lparr>keyType_' = keyType, keyIdType_' = JSKeyIdType USER_SPECIFIED,
                     keyId_' = keyId\<rparr>)
      | None \<Rightarrow>
          (if loose_eq_KeyIdType keyIdTypeOrKeyId USER_SPECIFIED
           then Inl (Error ''KeyParams: KeyIdType is USER_SPECIFIED'')
           else Inr \<lparr>keyType_' = keyType, keyIdType_' = keyIdTypeOrKeyId, keyId_' = []\<rparr>))"

definition getKeyType :: "'a KeyParamsFields_scheme \<Rightarrow> KeyType" where
  "getKeyType this = keyType_' this"

definition getKeyIdType :: "'a KeyParamsFields_scheme \<Rightarrow> jsval" where
  "getKeyIdType this = keyIdType_' this"

definition getKeyId :: "'a KeyParamsFields_scheme \<Rightarrow> Component" where
  "getKeyId this = keyId_' this"

definition getKeySize :: "SizedKeyParamsFields \<Rightarrow> jsval" where
  "getKeySize this = size_' this"

subsection \<open>RsaKeyParams\<close>

definition RsaKeyParams_getDefaultSize :: int where
  "RsaKeyParams_getDefaultSize = 2048"

definition RsaKeyParams_getType :: KeyType where
  "RsaKeyParams_getType = RSA"

definition RsaKeyParams :: "jsval \<Rightarrow> jsval \<Rightarrow> error + SizedKeyParamsFields" where
  "RsaKeyParams keyIdOrSize arg2 =
     (case instanceof_Name_Component keyIdOrSize of
        Some keyId \<Rightarrow>
          (case KeyParams RsaKeyParams_getType (JSComponent keyId) of
             Inl e \<Rightarrow> Inl e
           | Inr this \<Rightarrow>
               (if loose_eq_undefined arg2
                then Inr (set_size this (JSNumber RsaKeyParams_getDefaultSize))
                else Inr (set_size this arg2)))
      | None \<Rightarrow>
          (if \<not> loose_eq_undefined keyIdOrSize then
             (let keyIdType =
                    (if \<not> loose_eq_undefined arg2 then arg2 else JSKeyIdType RANDOM)
              in case KeyParams RsaKeyParams_getType keyIdType of
                   Inl e \<Rightarrow> Inl e
                 | Inr this \<Rightarrow> Inr (set_size this keyIdOrSize))
           else
             (case KeyParams RsaKeyParams_getType (JSKeyIdType RANDOM) of
                Inl e \<Rightarrow> Inl e
              | Inr this \<Rightarrow> Inr (set_size this (JSNumber RsaKeyParams_getDefaultSize)))))"

subsection \<open>EcdsaKeyParams\<close>

definition EcdsaKeyParams_getDefaultSize :: int where
  "EcdsaKeyParams_getDefaultSize = 256"

definition EcdsaKeyParams_getType :: KeyType where
  "EcdsaKeyParams_getType = ECDSA"

definition EcdsaKeyParams :: "jsval \<Rightarrow> jsval \<Rightarrow> error + SizedKeyParamsFields" where
  "EcdsaKeyParams keyIdOrSize arg2 =
     (case instanceof_Name_Component keyIdOrSize of
        Some keyId \<Rightarrow>
          (case KeyParams EcdsaKeyParams_getType (JSComponent keyId) of
             Inl e \<Rightarrow> Inl e
           | Inr this \<Rightarrow>
               (if loose_eq_undefined arg2
                then Inr (set_size this (JSNumber EcdsaKeyParams_getDefaultSize))
                else Inr (set_size this arg2)))
      | None \<Rightarrow>
          (if \<not> loose_eq_undefined keyIdOrSize then
             (let keyIdType =
                    (if \<not> loose_eq_undefined arg2 then arg2 else JSKeyIdType RANDOM)
              in case KeyParams EcdsaKeyParams_getType keyIdType of
                   Inl e \<Rightarrow> Inl e
                 | Inr this \<Rightarrow> Inr (set_size this keyIdOrSize))
           else
             (case KeyParams EcdsaKeyParams_getType (JSKeyIdType RANDOM) of
                Inl e \<Rightarrow> Inl e
              | Inr this \<Rightarrow> Inr (set_size this (JSNumber EcdsaKeyParams_getDefaultSize)))))"

subsection \<open>AesKeyParams\<close>

definition AesKeyParams_getDefaultSize :: int where
  "AesKeyParams_getDefaultSize = 64"

definition AesKeyParams_getType :: KeyType where
  "AesKeyParams_getType = AES"

definition AesKeyParams :: "jsval \<Rightarrow> jsval \<Rightarrow> error + SizedKeyParamsFields" where
  "AesKeyParams keyIdOrSize arg2 =
     (case instanceof_Name_Component keyIdOrSize of
        Some keyId \<Rightarrow>
          (case KeyParams AesKeyParams_getType (JSComponent keyId) of
             Inl e \<Rightarrow> Inl e
           | Inr this \<Rightarrow>
               (if loose_eq_undefined arg2
                then Inr (set_size this (JSNumber AesKeyParams_getDefaultSize))
                else Inr (set_size this arg2)))
      | None \<Rightarrow>
          (if \<not> loose_eq_undefined keyIdOrSize then
             (let keyIdType =
                    (if \<not> loose_eq_undefined arg2 then arg2 else JSKeyIdType RANDOM)
              in case KeyParams AesKeyParams_getType keyIdType of
                   Inl e \<Rightarrow> Inl e
                 | Inr this \<Rightarrow> Inr (set_size this keyIdOrSize))
           else
             (case KeyParams AesKeyParams_getType (JSKeyIdType RANDOM) of
                Inl e \<Rightarrow> Inl e
              | Inr this \<Rightarrow> Inr (set_size this (JSNumber AesKeyParams_getDefaultSize)))))"

section \<open>Properties of ForwardingFlags\<close>

subsection \<open>The bitwise operators on the two flag bits\<close>

lemma js_bitand_bit:
  assumes "n < 32"
  shows "js_bitand v (2 ^ n) \<noteq> 0 \<longleftrightarrow> bit v n"
proof -
  have "js_bitand v (2 ^ n) = 0 \<longleftrightarrow> (word_of_int v :: 32 word) AND 2 ^ n = 0"
    by (simp add: js_bitand_def signed_eq_0_iff)
  also have "\<dots> \<longleftrightarrow> \<not> bit (word_of_int v :: 32 word) n"
    by (rule and_exp_eq_0_iff_not_bit)
  also have "\<dots> \<longleftrightarrow> \<not> bit v n"
    using assms by (simp add: bit_word_of_int_iff)
  finally show ?thesis by simp
qed

lemma int_and_bit: "(v :: int) AND 2 ^ n \<noteq> 0 \<longleftrightarrow> bit v n"
  by (simp add: and_exp_eq_0_iff_not_bit)

lemma js_bitand_CHILD_INHERIT:
  "js_bitand v NfdForwardingFlags_CHILD_INHERIT \<noteq> 0 \<longleftrightarrow> v AND 1 \<noteq> 0"
  using js_bitand_bit [of 0 v] int_and_bit [of v 0]
  by (simp add: NfdForwardingFlags_CHILD_INHERIT_def)

lemma js_bitand_CAPTURE:
  "js_bitand v NfdForwardingFlags_CAPTURE \<noteq> 0 \<longleftrightarrow> v AND 2 \<noteq> 0"
  using js_bitand_bit [of 1 v] int_and_bit [of v 1]
  by (simp add: NfdForwardingFlags_CAPTURE_def)

lemma js_bitor_values:
  "js_bitor 0 NfdForwardingFlags_CHILD_INHERIT = 1"
  "js_bitor 0 NfdForwardingFlags_CAPTURE = 2"
  "js_bitor 1 NfdForwardingFlags_CAPTURE = 3"
  by (simp_all add: js_bitor_def NfdForwardingFlags_CHILD_INHERIT_def
      NfdForwardingFlags_CAPTURE_def)

lemma small_int_cases:
  assumes "0 \<le> (v::int)" "v \<le> 3"
  shows "v = 0 \<or> v = 1 \<or> v = 2 \<or> v = 3"
  using assms by arith

subsection \<open>The store\<close>

lemma deref_update_same:
  "deref h this = Some f \<Longrightarrow> deref (h[this := ForwardingFlagsObj g]) this = Some g"
  by (simp add: deref_def split: if_splits)

lemma deref_update_other:
  "a \<noteq> this \<Longrightarrow> deref (h[this := x]) a = deref h a"
  by (simp add: deref_def)

lemma deref_append_new: "deref (h @ [ForwardingFlagsObj g]) (length h) = Some g"
  by (simp add: deref_def)

lemma deref_append_old: "a < length h \<Longrightarrow> deref (h @ xs) a = deref h a"
  by (simp add: deref_def nth_append)

lemma deref_Some_less: "deref h a = Some f \<Longrightarrow> a < length h"
  by (simp add: deref_def split: if_splits)

lemma ForwardingFlags_default:
  "ForwardingFlags h JSUndefined =
     (h @ [ForwardingFlagsObj \<lparr>childInherit = True, capture = False, origin = None\<rparr>],
      length h)"
  by (simp add: ForwardingFlags_def instanceof_ForwardingFlags_def)

lemma ForwardingFlags_copy:
  assumes "deref h f = Some r"
  shows "ForwardingFlags h (JSObject f) = (h @ [ForwardingFlagsObj r], length h)"
  using assms by (simp add: ForwardingFlags_def instanceof_ForwardingFlags_def)

lemma mutate_step:
  assumes "deref h c = Some g"
  shows "\<exists>g'. mutate h c m = Some (h[c := ForwardingFlagsObj g'], c)"
  using assms
  by (cases m;
      simp add: setChildInherit_def setCapture_def setOrigin_def setNfdForwardingFlags_def;
      blast)

lemma deref_Some_nth: "deref h a = Some f \<Longrightarrow> h ! a = ForwardingFlagsObj f"
  by (simp add: deref_def split: if_splits heapobj.splits)

text \<open>
  A chain of setter calls on the object at \<open>c\<close> always runs to its end and returns
  \<open>c\<close>; the store it returns is the one it started from with the object at \<open>c\<close>
  replaced, so every other object is as it was.
\<close>

lemma mutate_chain_result:
  assumes "deref h c = Some g"
  shows "\<exists>g'. mutate_chain h c ms = Some (h[c := ForwardingFlagsObj g'], c)"
  using assms
proof (induction ms arbitrary: h g)
  case Nil
  have "h[c := ForwardingFlagsObj g] = h"
    using deref_Some_nth [OF Nil] list_update_id [of h c] by simp
  then have "mutate_chain h c [] = Some (h[c := ForwardingFlagsObj g], c)" by simp
  then show ?case by blast
next
  case (Cons m ms)
  from mutate_step [OF Cons.prems, of m]
  obtain g1 where m: "mutate h c m = Some (h[c := ForwardingFlagsObj g1], c)" by blast
  let ?h1 = "h[c := ForwardingFlagsObj g1]"
  have d1: "deref ?h1 c = Some g1"
    using Cons.prems by (rule deref_update_same)
  from Cons.IH [OF d1]
  obtain g' where "mutate_chain ?h1 c ms = Some (?h1[c := ForwardingFlagsObj g'], c)"
    by blast
  with m have "mutate_chain h c (m # ms) = Some (h[c := ForwardingFlagsObj g'], c)"
    by simp
  then show ?case by blast
qed

subsection \<open>Encoding the flags\<close>

text \<open>
  Claim C1. On every ForwardingFlags, whatever the store around it,
  \<open>getNfdForwardingFlags\<close> returns a result (it is total), returns the store as it
  received it (no field of any object changes), and the result is
  \<open>(childInherit ? 1 : 0) | (capture ? 2 : 0)\<close>: 1 for childInherit alone, 2 for
  capture alone, 3 for both and 0 for neither.
\<close>

theorem getNfdForwardingFlags_value:
  assumes "deref h this = Some f"
  shows "getNfdForwardingFlags h this =
           Some (h, (if childInherit f then 1 else 0) OR (if capture f then 2 else 0))
       \<and> ((if childInherit f then 1 else 0) OR (if capture f then 2 else 0) :: int) =
           (if childInherit f then (if capture f then 3 else 1)
            else (if capture f then 2 else 0))"
  using assms by (simp add: getNfdForwardingFlags_def js_bitor_values)

theorem getNfdForwardingFlags_value_witness:
  "deref [OtherObj,
          ForwardingFlagsObj \<lparr>childInherit = True, capture = True, origin = Some 7\<rparr>] 1
     = Some \<lparr>childInherit = True, capture = True, origin = Some 7\<rparr>
   \<and> getNfdForwardingFlags
        [OtherObj,
         ForwardingFlagsObj \<lparr>childInherit = True, capture = True, origin = Some 7\<rparr>] 1
     = Some ([OtherObj,
              ForwardingFlagsObj \<lparr>childInherit = True, capture = True, origin = Some 7\<rparr>],
             3)"
proof -
  have d: "deref [OtherObj,
                  ForwardingFlagsObj \<lparr>childInherit = True, capture = True, origin = Some 7\<rparr>] 1
     = Some \<lparr>childInherit = True, capture = True, origin = Some 7\<rparr>"
    by (simp add: deref_def)
  show ?thesis using d getNfdForwardingFlags_value [OF d] by simp
qed

subsection \<open>Decoding the flags\<close>

text \<open>
  Claim C7. On every ForwardingFlags and for every integer \<open>v\<close>,
  \<open>setNfdForwardingFlags\<close> returns a result (it never fails), the reference it returns
  is \<open>this\<close>, and the store it returns is the one it received with the object at
  \<open>this\<close> replaced: childInherit is \<open>(v & 1) != 0\<close>, capture is \<open>(v & 2) != 0\<close>, both
  read on the integer \<open>v\<close> itself, so no other bit of \<open>v\<close> has any effect, and the
  origin is the one the object had.
\<close>

theorem setNfdForwardingFlags_effect:
  assumes "deref h this = Some f"
  shows "setNfdForwardingFlags h this v =
           Some (h[this := ForwardingFlagsObj
                   (f\<lparr>childInherit := (v AND 1 \<noteq> 0), capture := (v AND 2 \<noteq> 0)\<rparr>)], this)
       \<and> deref (h[this := ForwardingFlagsObj
                   (f\<lparr>childInherit := (v AND 1 \<noteq> 0), capture := (v AND 2 \<noteq> 0)\<rparr>)]) this =
           Some (f\<lparr>childInherit := (v AND 1 \<noteq> 0), capture := (v AND 2 \<noteq> 0)\<rparr>)
       \<and> origin (f\<lparr>childInherit := (v AND 1 \<noteq> 0), capture := (v AND 2 \<noteq> 0)\<rparr>) = origin f"
  using assms
  by (simp add: setNfdForwardingFlags_def js_bitand_CHILD_INHERIT js_bitand_CAPTURE
      deref_update_same)

theorem setNfdForwardingFlags_effect_witness:
  "deref [OtherObj,
          ForwardingFlagsObj \<lparr>childInherit = True, capture = False, origin = Some 7\<rparr>] 1
     = Some \<lparr>childInherit = True, capture = False, origin = Some 7\<rparr>
   \<and> setNfdForwardingFlags
        [OtherObj,
         ForwardingFlagsObj \<lparr>childInherit = True, capture = False, origin = Some 7\<rparr>] 1 6
     = Some ([OtherObj,
              ForwardingFlagsObj \<lparr>childInherit = False, capture = True, origin = Some 7\<rparr>],
             1)"
proof -
  have d: "deref [OtherObj,
                  ForwardingFlagsObj \<lparr>childInherit = True, capture = False, origin = Some 7\<rparr>] 1
     = Some \<lparr>childInherit = True, capture = False, origin = Some 7\<rparr>"
    by (simp add: deref_def)
  show ?thesis
    using d setNfdForwardingFlags_effect [OF d, of 6] by simp
qed

subsection \<open>Decoding, then encoding\<close>

text \<open>
  Claim C2. For every integer \<open>v\<close> from 0 to 3 and in every store,
  \<open>new ForwardingFlags().setNfdForwardingFlags(v).getNfdForwardingFlags()\<close> is \<open>v\<close>.
\<close>

theorem nfd_roundtrip:
  assumes "0 \<le> v" "v \<le> 3"
  shows "(case ForwardingFlags h JSUndefined of
            (h1, f) \<Rightarrow>
              (case setNfdForwardingFlags h1 f v of
                 None \<Rightarrow> None
               | Some (h2, f') \<Rightarrow> map_option snd (getNfdForwardingFlags h2 f'))) = Some v"
proof -
  let ?d = "\<lparr>childInherit = True, capture = False, origin = None\<rparr>"
  let ?h1 = "h @ [ForwardingFlagsObj ?d]"
  let ?g = "?d\<lparr>childInherit := (v AND 1 \<noteq> 0), capture := (v AND 2 \<noteq> 0)\<rparr>"
  let ?h2 = "?h1[length h := ForwardingFlagsObj ?g]"
  have d1: "deref ?h1 (length h) = Some ?d" by (rule deref_append_new)
  have s: "setNfdForwardingFlags ?h1 (length h) v = Some (?h2, length h)"
    using d1 by (simp add: setNfdForwardingFlags_def js_bitand_CHILD_INHERIT js_bitand_CAPTURE)
  have d2: "deref ?h2 (length h) = Some ?g"
    using d1 by (rule deref_update_same)
  have g: "getNfdForwardingFlags ?h2 (length h) =
        Some (?h2, (if v AND 1 \<noteq> 0 then (if v AND 2 \<noteq> 0 then 3 else 1)
                    else (if v AND 2 \<noteq> 0 then 2 else 0)))"
    using d2 by (simp add: getNfdForwardingFlags_def js_bitor_values)
  have v: "(if v AND 1 \<noteq> 0 then (if v AND 2 \<noteq> 0 then 3 else 1)
                    else (if v AND 2 \<noteq> 0 then 2 else 0)) = v"
    using small_int_cases [OF assms] by auto
  show ?thesis
    by (simp only: ForwardingFlags_default prod.case s option.case g option.map snd_conv v)
qed

theorem nfd_roundtrip_witness:
  "(0::int) \<le> 2 \<and> (2::int) \<le> 3
   \<and> (case ForwardingFlags [] JSUndefined of
            (h1, f) \<Rightarrow>
              (case setNfdForwardingFlags h1 f 2 of
                 None \<Rightarrow> None
               | Some (h2, f') \<Rightarrow> map_option snd (getNfdForwardingFlags h2 f'))) = Some 2"
  using nfd_roundtrip [of 2 "[]"] by simp

subsection \<open>Construction and copies\<close>

text \<open>
  Claim C9. In every store, \<open>new ForwardingFlags()\<close> allocates one object, at the
  first address that is not in use, with childInherit true, capture false and no
  origin, and leaves the store before it as it was. For a ForwardingFlags at address
  \<open>f\<close> with fields \<open>r\<close>, \<open>new ForwardingFlags(f)\<close> likewise allocates one object at
  an address that was not in use (so it is not \<open>f\<close> nor any other live object), with
  the fields \<open>r\<close>, and the object at \<open>f\<close> still has the fields \<open>r\<close>. Any chain of
  calls of \<open>setChildInherit\<close>, \<open>setCapture\<close>, \<open>setOrigin\<close> and
  \<open>setNfdForwardingFlags\<close> on the copy runs to its end and changes the copy only:
  the store before the copy is as it was, and the object at \<open>f\<close> still has the
  fields \<open>r\<close>.
\<close>

theorem ForwardingFlags_construction:
  "ForwardingFlags h JSUndefined =
     (h @ [ForwardingFlagsObj \<lparr>childInherit = True, capture = False, origin = None\<rparr>],
      length h)
 \<and> deref (h @ [ForwardingFlagsObj \<lparr>childInherit = True, capture = False, origin = None\<rparr>])
      (length h) = Some \<lparr>childInherit = True, capture = False, origin = None\<rparr>
 \<and> (deref h f = Some r \<longrightarrow>
      ForwardingFlags h (JSObject f) = (h @ [ForwardingFlagsObj r], length h)
      \<and> length h \<noteq> f
      \<and> deref h (length h) = None
      \<and> deref (h @ [ForwardingFlagsObj r]) (length h) = Some r
      \<and> deref (h @ [ForwardingFlagsObj r]) f = Some r
      \<and> (\<forall>ms. \<exists>g. mutate_chain (h @ [ForwardingFlagsObj r]) (length h) ms =
                     Some (h @ [ForwardingFlagsObj g], length h)
                  \<and> deref (h @ [ForwardingFlagsObj g]) f = Some r))"
proof (intro conjI impI)
  show "ForwardingFlags h JSUndefined =
     (h @ [ForwardingFlagsObj \<lparr>childInherit = True, capture = False, origin = None\<rparr>],
      length h)"
    by (rule ForwardingFlags_default)
  show "deref (h @ [ForwardingFlagsObj \<lparr>childInherit = True, capture = False, origin = None\<rparr>])
      (length h) = Some \<lparr>childInherit = True, capture = False, origin = None\<rparr>"
    by (rule deref_append_new)
next
  assume a: "deref h f = Some r"
  let ?h1 = "h @ [ForwardingFlagsObj r]"
  have lt: "f < length h" using a by (rule deref_Some_less)
  show "ForwardingFlags h (JSObject f) = (?h1, length h)"
    using a by (rule ForwardingFlags_copy)
  show "length h \<noteq> f" using lt by simp
  show "deref h (length h) = None" by (simp add: deref_def)
  show dc: "deref ?h1 (length h) = Some r" by (rule deref_append_new)
  have old: "deref (h @ xs) f = Some r" for xs
    using lt a by (simp add: deref_append_old)
  show "deref ?h1 f = Some r" by (rule old)
  show "\<forall>ms. \<exists>g. mutate_chain ?h1 (length h) ms =
                     Some (h @ [ForwardingFlagsObj g], length h)
                  \<and> deref (h @ [ForwardingFlagsObj g]) f = Some r"
  proof
    fix ms
    from mutate_chain_result [OF dc, of ms]
    obtain g where "mutate_chain ?h1 (length h) ms =
        Some (?h1[length h := ForwardingFlagsObj g], length h)" by blast
    then have "mutate_chain ?h1 (length h) ms = Some (h @ [ForwardingFlagsObj g], length h)"
      by simp
    with old [of "[ForwardingFlagsObj g]"]
    show "\<exists>g. mutate_chain ?h1 (length h) ms =
                     Some (h @ [ForwardingFlagsObj g], length h)
                  \<and> deref (h @ [ForwardingFlagsObj g]) f = Some r"
      by blast
  qed
qed

theorem ForwardingFlags_construction_witness:
  "ForwardingFlags [] JSUndefined =
     ([ForwardingFlagsObj \<lparr>childInherit = True, capture = False, origin = None\<rparr>], 0)
   \<and> deref [ForwardingFlagsObj \<lparr>childInherit = False, capture = True, origin = Some 7\<rparr>] 0
     = Some \<lparr>childInherit = False, capture = True, origin = Some 7\<rparr>
   \<and> ForwardingFlags
        [ForwardingFlagsObj \<lparr>childInherit = False, capture = True, origin = Some 7\<rparr>]
        (JSObject 0)
     = ([ForwardingFlagsObj \<lparr>childInherit = False, capture = True, origin = Some 7\<rparr>,
         ForwardingFlagsObj \<lparr>childInherit = False, capture = True, origin = Some 7\<rparr>], 1)
   \<and> mutate_chain
        [ForwardingFlagsObj \<lparr>childInherit = False, capture = True, origin = Some 7\<rparr>,
         ForwardingFlagsObj \<lparr>childInherit = False, capture = True, origin = Some 7\<rparr>] 1
        [SetNfdForwardingFlags 1, SetOrigin None, SetCapture True]
     = Some ([ForwardingFlagsObj \<lparr>childInherit = False, capture = True, origin = Some 7\<rparr>,
              ForwardingFlagsObj \<lparr>childInherit = True, capture = True, origin = None\<rparr>], 1)"
proof -
  have d: "deref [ForwardingFlagsObj \<lparr>childInherit = False, capture = True, origin = Some 7\<rparr>] 0
     = Some \<lparr>childInherit = False, capture = True, origin = Some 7\<rparr>"
    by (simp add: deref_def)
  show ?thesis
    using d ForwardingFlags_construction [of "[]"]
      ForwardingFlags_construction
        [of "[ForwardingFlagsObj \<lparr>childInherit = False, capture = True, origin = Some 7\<rparr>]" 0
            "\<lparr>childInherit = False, capture = True, origin = Some 7\<rparr>"]
    by (simp add: deref_def setNfdForwardingFlags_def setOrigin_def setCapture_def
        js_bitand_def NfdForwardingFlags_CHILD_INHERIT_def NfdForwardingFlags_CAPTURE_def)
qed

section \<open>Properties of KeyParams\<close>

subsection \<open>The tests the constructors make\<close>

lemma instanceof_Name_Component_simps:
  "instanceof_Name_Component (JSComponent c) = Some c"
  "instanceof_Name_Component JSUndefined = None"
  "instanceof_Name_Component JSNull = None"
  "instanceof_Name_Component (JSKeyIdType k) = None"
  "instanceof_Name_Component (JSNumber n) = None"
  by (simp_all add: instanceof_Name_Component_def)

lemma instanceof_Name_Component_Some:
  "instanceof_Name_Component x = Some c \<longleftrightarrow> x = JSComponent c"
  by (cases x) (simp_all add: instanceof_Name_Component_def)

lemma loose_eq_undefined_simps:
  "loose_eq_undefined JSUndefined"
  "loose_eq_undefined JSNull"
  "\<not> loose_eq_undefined (JSKeyIdType k)"
  "\<not> loose_eq_undefined (JSNumber n)"
  "\<not> loose_eq_undefined (JSComponent c)"
  by (simp_all add: loose_eq_undefined_def)

lemma loose_eq_KeyIdType_iff:
  "loose_eq_KeyIdType x k \<longleftrightarrow> x = JSKeyIdType k"
  by (cases x) (auto simp add: loose_eq_KeyIdType_def)

subsection \<open>The base constructor\<close>

lemma KeyParams_keyId:
  "KeyParams t (JSComponent b) =
     (if b = [] then Inl (Error ''KeyParams: keyId is empty'')
      else Inr \<lparr>keyType_' = t, keyIdType_' = JSKeyIdType USER_SPECIFIED, keyId_' = b\<rparr>)"
  by (simp add: KeyParams_def instanceof_Name_Component_simps)

lemma KeyParams_keyIdType:
  assumes "instanceof_Name_Component x = None"
  shows "KeyParams t x =
     (if x = JSKeyIdType USER_SPECIFIED
      then Inl (Error ''KeyParams: KeyIdType is USER_SPECIFIED'')
      else Inr \<lparr>keyType_' = t, keyIdType_' = x, keyId_' = []\<rparr>)"
  using assms by (simp add: KeyParams_def loose_eq_KeyIdType_iff)

lemma KeyParams_RANDOM:
  "KeyParams t (JSKeyIdType RANDOM) =
     Inr \<lparr>keyType_' = t, keyIdType_' = JSKeyIdType RANDOM, keyId_' = []\<rparr>"
  by (simp add: KeyParams_keyIdType instanceof_Name_Component_simps)

text \<open>
  Whatever the base constructor is given, an object it returns has the key id type
  USER_SPECIFIED exactly when it was given a key id that is not empty; a key id it was
  given is the key id of the object; otherwise the key id of the object is empty.
\<close>

lemma KeyParams_USER_SPECIFIED_iff:
  assumes "KeyParams t x = Inr p"
  shows "(getKeyIdType p = JSKeyIdType USER_SPECIFIED
            \<longleftrightarrow> (\<exists>b. b \<noteq> [] \<and> x = JSComponent b))
       \<and> (\<forall>b. x = JSComponent b \<longrightarrow> getKeyId p = b)
       \<and> (getKeyIdType p \<noteq> JSKeyIdType USER_SPECIFIED \<longrightarrow> getKeyId p = [])"
  using assms
  by (cases p; cases "instanceof_Name_Component x")
     (auto simp add: getKeyIdType_def getKeyId_def KeyParams_keyId KeyParams_keyIdType
        instanceof_Name_Component_Some instanceof_Name_Component_simps split: if_splits)

lemmas variant_defs =
  RsaKeyParams_def RsaKeyParams_getType_def RsaKeyParams_getDefaultSize_def
  EcdsaKeyParams_def EcdsaKeyParams_getType_def EcdsaKeyParams_getDefaultSize_def
  AesKeyParams_def AesKeyParams_getType_def AesKeyParams_getDefaultSize_def

lemmas getter_defs = getKeyType_def getKeyIdType_def getKeyId_def getKeySize_def

subsection \<open>Construction without arguments\<close>

text \<open>
  Claim C3. For each of RsaKeyParams, EcdsaKeyParams and AesKeyParams, the
  construction with no argument returns an object, whose \<open>getKeyIdType()\<close> is RANDOM,
  whose \<open>getKeySize()\<close> is 2048, 256 and 64 respectively, and whose \<open>getKeyType()\<close>
  is RSA, ECDSA and AES respectively.
\<close>

theorem no_argument_construction:
  "(\<exists>p. RsaKeyParams JSUndefined JSUndefined = Inr p
        \<and> getKeyIdType p = JSKeyIdType RANDOM \<and> getKeySize p = JSNumber 2048
        \<and> getKeyType p = RSA)
 \<and> (\<exists>p. EcdsaKeyParams JSUndefined JSUndefined = Inr p
        \<and> getKeyIdType p = JSKeyIdType RANDOM \<and> getKeySize p = JSNumber 256
        \<and> getKeyType p = ECDSA)
 \<and> (\<exists>p. AesKeyParams JSUndefined JSUndefined = Inr p
        \<and> getKeyIdType p = JSKeyIdType RANDOM \<and> getKeySize p = JSNumber 64
        \<and> getKeyType p = AES)"
  by (simp add: variant_defs getter_defs instanceof_Name_Component_simps
      loose_eq_undefined_simps KeyParams_RANDOM set_size_def)

text \<open>
  Claim C10. For each variant, when the first argument is \<open>undefined\<close> the
  construction returns an object whatever the second argument is: the key id type is
  RANDOM, the key id is empty and the size is the default of the variant.
\<close>

theorem absent_first_argument:
  "RsaKeyParams JSUndefined arg2 =
     Inr \<lparr>keyType_' = RSA, keyIdType_' = JSKeyIdType RANDOM, keyId_' = [],
          size_' = JSNumber 2048\<rparr>
 \<and> EcdsaKeyParams JSUndefined arg2 =
     Inr \<lparr>keyType_' = ECDSA, keyIdType_' = JSKeyIdType RANDOM, keyId_' = [],
          size_' = JSNumber 256\<rparr>
 \<and> AesKeyParams JSUndefined arg2 =
     Inr \<lparr>keyType_' = AES, keyIdType_' = JSKeyIdType RANDOM, keyId_' = [],
          size_' = JSNumber 64\<rparr>"
  by (simp add: variant_defs instanceof_Name_Component_simps
      loose_eq_undefined_simps KeyParams_RANDOM set_size_def)

subsection \<open>Construction from a key id\<close>

text \<open>
  Claim C4. For each variant and every key id \<open>b\<close> that is not empty, the construction
  from \<open>b\<close> returns an object whose \<open>getKeyIdType()\<close> is USER_SPECIFIED and whose
  \<open>getKeyId()\<close> is \<open>b\<close>; its \<open>getKeySize()\<close> is the default of the variant when the
  second argument is left out (it is \<open>undefined\<close>, or \<open>null\<close>, which the test
  \<^verbatim>\<open>arg2 == undefined\<close> does not tell apart), and the second argument otherwise.
\<close>

theorem keyId_construction:
  assumes "b \<noteq> []"
  shows "(\<exists>p. RsaKeyParams (JSComponent b) arg2 = Inr p
        \<and> getKeyIdType p = JSKeyIdType USER_SPECIFIED \<and> getKeyId p = b
        \<and> getKeySize p = (if loose_eq_undefined arg2 then JSNumber 2048 else arg2))
 \<and> (\<exists>p. EcdsaKeyParams (JSComponent b) arg2 = Inr p
        \<and> getKeyIdType p = JSKeyIdType USER_SPECIFIED \<and> getKeyId p = b
        \<and> getKeySize p = (if loose_eq_undefined arg2 then JSNumber 256 else arg2))
 \<and> (\<exists>p. AesKeyParams (JSComponent b) arg2 = Inr p
        \<and> getKeyIdType p = JSKeyIdType USER_SPECIFIED \<and> getKeyId p = b
        \<and> getKeySize p = (if loose_eq_undefined arg2 then JSNumber 64 else arg2))"
  using assms
  by (simp add: variant_defs getter_defs instanceof_Name_Component_simps KeyParams_keyId
      set_size_def)

theorem keyId_construction_witness:
  "[1 :: 8 word, 2] \<noteq> []
 \<and> RsaKeyParams (JSComponent [1, 2]) JSUndefined =
     Inr \<lparr>keyType_' = RSA, keyIdType_' = JSKeyIdType USER_SPECIFIED, keyId_' = [1, 2],
          size_' = JSNumber 2048\<rparr>
 \<and> EcdsaKeyParams (JSComponent [1, 2]) (JSNumber 384) =
     Inr \<lparr>keyType_' = ECDSA, keyIdType_' = JSKeyIdType USER_SPECIFIED, keyId_' = [1, 2],
          size_' = JSNumber 384\<rparr>
 \<and> AesKeyParams (JSComponent [1, 2]) (JSNumber 128) =
     Inr \<lparr>keyType_' = AES, keyIdType_' = JSKeyIdType USER_SPECIFIED, keyId_' = [1, 2],
          size_' = JSNumber 128\<rparr>"
  using keyId_construction [of "[1, 2]" JSUndefined]
    keyId_construction [of "[1, 2]" "JSNumber 384"]
    keyId_construction [of "[1, 2]" "JSNumber 128"]
  by (simp add: variant_defs instanceof_Name_Component_simps KeyParams_keyId set_size_def
      loose_eq_undefined_simps)

text \<open>
  Claim C5. For each variant, the construction from an empty key id throws the error
  of the empty key id, whatever the second argument is. The result is the error: no
  object is returned.
\<close>

theorem empty_keyId_rejected:
  "RsaKeyParams (JSComponent []) arg2 = Inl (Error ''KeyParams: keyId is empty'')
 \<and> EcdsaKeyParams (JSComponent []) arg2 = Inl (Error ''KeyParams: keyId is empty'')
 \<and> AesKeyParams (JSComponent []) arg2 = Inl (Error ''KeyParams: keyId is empty'')"
  by (simp add: variant_defs instanceof_Name_Component_simps KeyParams_keyId)

subsection \<open>Construction from a size and a key id type\<close>

text \<open>
  Claim C6 says that the key id type USER_SPECIFIED as second argument makes the
  construction fail whether the size is given or left out. With the size left out the
  constructors do not look at the second argument: the construction returns an object
  with the key id type RANDOM and the default size.
\<close>

theorem USER_SPECIFIED_without_size_counterexample:
  "RsaKeyParams JSUndefined (JSKeyIdType USER_SPECIFIED) =
     Inr \<lparr>keyType_' = RSA, keyIdType_' = JSKeyIdType RANDOM, keyId_' = [],
          size_' = JSNumber 2048\<rparr>"
  by (simp add: variant_defs instanceof_Name_Component_simps
      loose_eq_undefined_simps KeyParams_RANDOM set_size_def)

text \<open>
  Claim C6, amended. For each variant, when the first argument is a size that is given
  (it is not a key id and is neither \<open>undefined\<close> nor \<open>null\<close>) and the second argument
  is the key id type USER_SPECIFIED, the construction throws the error of the key id
  type.
\<close>

theorem USER_SPECIFIED_with_size_rejected:
  assumes "instanceof_Name_Component sz = None" "\<not> loose_eq_undefined sz"
  shows "RsaKeyParams sz (JSKeyIdType USER_SPECIFIED) =
           Inl (Error ''KeyParams: KeyIdType is USER_SPECIFIED'')
       \<and> EcdsaKeyParams sz (JSKeyIdType USER_SPECIFIED) =
           Inl (Error ''KeyParams: KeyIdType is USER_SPECIFIED'')
       \<and> AesKeyParams sz (JSKeyIdType USER_SPECIFIED) =
           Inl (Error ''KeyParams: KeyIdType is USER_SPECIFIED'')"
  using assms
  by (simp add: variant_defs instanceof_Name_Component_simps loose_eq_undefined_simps
      KeyParams_keyIdType)

theorem USER_SPECIFIED_with_size_rejected_witness:
  "instanceof_Name_Component (JSNumber 1024) = None
 \<and> \<not> loose_eq_undefined (JSNumber 1024)
 \<and> RsaKeyParams (JSNumber 1024) (JSKeyIdType USER_SPECIFIED) =
      Inl (Error ''KeyParams: KeyIdType is USER_SPECIFIED'')
 \<and> EcdsaKeyParams (JSNumber 1024) (JSKeyIdType USER_SPECIFIED) =
      Inl (Error ''KeyParams: KeyIdType is USER_SPECIFIED'')
 \<and> AesKeyParams (JSNumber 1024) (JSKeyIdType USER_SPECIFIED) =
      Inl (Error ''KeyParams: KeyIdType is USER_SPECIFIED'')"
proof -
  have a: "instanceof_Name_Component (JSNumber 1024) = None"
    by (simp add: instanceof_Name_Component_simps)
  have b: "\<not> loose_eq_undefined (JSNumber 1024)"
    by (simp add: loose_eq_undefined_simps)
  show ?thesis
    using a b USER_SPECIFIED_with_size_rejected [OF a b] by simp
qed

subsection \<open>The key id type and the key id of a constructed object\<close>

text \<open>
  Claim C8. Take any of the three variants and any two arguments of one of the forms
  of the constructor, in which the second argument is a size, a key id type or left
  out, so it is not a key id. If the construction returns an object, then its
  \<open>getKeyIdType()\<close> is USER_SPECIFIED if and only if the first argument was a key id
  that is not empty; when the first argument was a key id, it is the \<open>getKeyId()\<close> of
  the object; and when \<open>getKeyIdType()\<close> is not USER_SPECIFIED, \<open>getKeyId()\<close> is the
  empty component.
\<close>

theorem USER_SPECIFIED_iff_keyId_supplied:
  assumes "V \<in> {RsaKeyParams, EcdsaKeyParams, AesKeyParams}"
    and "V a1 a2 = Inr p"
    and "instanceof_Name_Component a2 = None"
  shows "(getKeyIdType p = JSKeyIdType USER_SPECIFIED
            \<longleftrightarrow> (\<exists>b. b \<noteq> [] \<and> a1 = JSComponent b))
       \<and> (\<forall>b. a1 = JSComponent b \<longrightarrow> getKeyId p = b)
       \<and> (getKeyIdType p \<noteq> JSKeyIdType USER_SPECIFIED \<longrightarrow> getKeyId p = [])"
  using assms
  by (cases p; cases "instanceof_Name_Component a1")
     (auto simp add: variant_defs getter_defs KeyParams_keyId KeyParams_keyIdType
        instanceof_Name_Component_Some instanceof_Name_Component_simps set_size_def Let_def
        split: if_splits)

theorem USER_SPECIFIED_iff_keyId_supplied_witness:
  "EcdsaKeyParams \<in> {RsaKeyParams, EcdsaKeyParams, AesKeyParams}
 \<and> EcdsaKeyParams (JSComponent [1, 2]) JSUndefined =
      Inr \<lparr>keyType_' = ECDSA, keyIdType_' = JSKeyIdType USER_SPECIFIED, keyId_' = [1, 2],
           size_' = JSNumber 256\<rparr>
 \<and> instanceof_Name_Component JSUndefined = None
 \<and> getKeyIdType \<lparr>keyType_' = ECDSA, keyIdType_' = JSKeyIdType USER_SPECIFIED,
                  keyId_' = [1, 2], size_' = JSNumber 256\<rparr> = JSKeyIdType USER_SPECIFIED
 \<and> getKeyId \<lparr>keyType_' = ECDSA, keyIdType_' = JSKeyIdType USER_SPECIFIED,
              keyId_' = [1, 2], size_' = JSNumber 256\<rparr> = [1, 2]
 \<and> AesKeyParams \<in> {RsaKeyParams, EcdsaKeyParams, AesKeyParams}
 \<and> AesKeyParams (JSNumber 128) (JSKeyIdType SHA256) =
      Inr \<lparr>keyType_' = AES, keyIdType_' = JSKeyIdType SHA256, keyId_' = [],
           size_' = JSNumber 128\<rparr>
 \<and> instanceof_Name_Component (JSKeyIdType SHA256) = None
 \<and> getKeyIdType \<lparr>keyType_' = AES, keyIdType_' = JSKeyIdType SHA256, keyId_' = [],
                  size_' = JSNumber 128\<rparr> \<noteq> JSKeyIdType USER_SPECIFIED
 \<and> getKeyId \<lparr>keyType_' = AES, keyIdType_' = JSKeyIdType SHA256, keyId_' = [],
              size_' = JSNumber 128\<rparr> = []"
proof -
  let ?p1 = "\<lparr>keyType_' = ECDSA, keyIdType_' = JSKeyIdType USER_SPECIFIED,
               keyId_' = [1, 2], size_' = JSNumber 256\<rparr>"
  let ?p2 = "\<lparr>keyType_' = AES, keyIdType_' = JSKeyIdType SHA256, keyId_' = [],
               size_' = JSNumber 128\<rparr>"
  have v1: "EcdsaKeyParams \<in> {RsaKeyParams, EcdsaKeyParams, AesKeyParams}" by simp
  have c1: "EcdsaKeyParams (JSComponent [1, 2]) JSUndefined = Inr ?p1"
    by (simp add: variant_defs instanceof_Name_Component_simps KeyParams_keyId set_size_def
        loose_eq_undefined_simps)
  have n1: "instanceof_Name_Component JSUndefined = None"
    by (simp add: instanceof_Name_Component_simps)
  have v2: "AesKeyParams \<in> {RsaKeyParams, EcdsaKeyParams, AesKeyParams}" by simp
  have c2: "AesKeyParams (JSNumber 128) (JSKeyIdType SHA256) = Inr ?p2"
    by (simp add: variant_defs instanceof_Name_Component_simps KeyParams_keyIdType
        set_size_def loose_eq_undefined_simps)
  have n2: "instanceof_Name_Component (JSKeyIdType SHA256) = None"
    by (simp add: instanceof_Name_Component_simps)
  show ?thesis
    using v1 c1 n1 v2 c2 n2
      USER_SPECIFIED_iff_keyId_supplied [OF v1 c1 n1]
      USER_SPECIFIED_iff_keyId_supplied [OF v2 c2 n2]
    by (simp add: getter_defs)
qed


end
